theory Spec2Isabelle
  imports Complex_Main "HOL-Library.Word" "HOL-Library.Sublist"
begin

unbundle bit_operations_syntax

section \<open>Common conventions\<close>

text \<open>
  A \<^verbatim>\<open>Uint8Array\<close> is a list of bytes, and a byte is a \<^typ>\<open>char\<close> (8 bits, read with
  \<^const>\<open>of_char\<close>, written with \<^const>\<open>char_of\<close>, which keeps the low 8 bits as a typed array
  store does). A JavaScript string is modelled by the bytes of its UTF-8 encoding, so both
  are of type \<^typ>\<open>string\<close>; a string is assumed well formed (no lone surrogate).
  A \<^verbatim>\<open>bigint\<close> is an \<^typ>\<open>int\<close>. A \<^verbatim>\<open>number\<close> that the code
  converts with \<^verbatim>\<open>BigInt\<close> or uses as an index is an \<^typ>\<open>int\<close>;
  the timer values of the session configuration are \<^typ>\<open>rat\<close> (exact arithmetic; the rounding
  of IEEE doubles is not modelled).
  Every \<^verbatim>\<open>throw\<close> of the source is a value \<open>Inl e\<close> of the result.
  Names are those of the source; a name that Isabelle reserves or already uses is primed or
  shortened (\<open>value'\<close>, \<open>method'\<close>, \<open>type'\<close>, \<open>end'\<close>, \<open>sumv\<close> for \<^verbatim>\<open>sum\<close>, and
  \<open>mid\<close>, \<open>tid\<close> for the parameters \<^verbatim>\<open>messageId\<close>, \<^verbatim>\<open>traceId\<close>).
\<close>

type_synonym Uint8Array = string

datatype error =
    VarintOverflow          \<comment> \<open>"Feishu WS proto: varint overflow"\<close>
  | LengthOutOfRange        \<comment> \<open>"Feishu WS proto: length out of range"\<close>
  | RangeError              \<comment> \<open>\<^verbatim>\<open>new Array(sum)\<close> with an invalid length\<close>
  | SyntaxError             \<comment> \<open>\<^verbatim>\<open>JSON.parse\<close> on a text that is not JSON\<close>
  | HandlerError string     \<comment> \<open>whatever the registered event handler throws\<close>
  | BodyEmpty               \<comment> \<open>"Feishu callback body is empty"\<close>
  | AppSecretMissing        \<comment> \<open>"Feishu callback signature provided but appSecret missing"\<close>
  | SignatureMismatch       \<comment> \<open>"Feishu callback signature mismatch"\<close>
  | EncryptKeyMissing       \<comment> \<open>"Feishu callback encrypt payload but encryptKey missing"\<close>
  | DecryptError            \<comment> \<open>the cipher rejects the ciphertext\<close>
  | TokenMismatch           \<comment> \<open>"Feishu callback verification token mismatch"\<close>
  | ChallengeMissing        \<comment> \<open>"Feishu callback challenge missing"\<close>

text \<open>
  \<^verbatim>\<open>Number(b)\<close> of a non-negative bigint: exact below \<open>2^53\<close>, otherwise rounded to 53
  significant bits, ties to even. (At \<open>2^1024\<close> and above JavaScript gives \<^verbatim>\<open>Infinity\<close>;
  the value computed here is then a multiple of \<open>2^971\<close>, which \<^verbatim>\<open>ToInt32\<close> maps to 0
  as it maps \<^verbatim>\<open>Infinity\<close>, and which exceeds every buffer length.)
\<close>

function js_exponent :: "int \<Rightarrow> nat" where
  "js_exponent n = (if n < 2 ^ 53 then 0 else Suc (js_exponent (n div 2)))"
  by pat_completeness auto
termination
  by (relation "measure nat") auto

declare js_exponent.simps [simp del]

definition js_Number :: "int \<Rightarrow> int" where
  "js_Number n =
     (if n < 2 ^ 53 then n
      else let e = js_exponent n; q = n div 2 ^ e; r = n mod 2 ^ e; half = 2 ^ (e - 1)
           in (if r > half \<or> (r = half \<and> odd q) then q + 1 else q) * 2 ^ e)"

text \<open>\<^verbatim>\<open>ToInt32\<close>, which the operators \<^verbatim>\<open>>>\<close> and \<^verbatim>\<open>&\<close> apply to a number.\<close>

definition js_ToInt32 :: "int \<Rightarrow> int" where
  "js_ToInt32 x = sint (word_of_int x :: 32 word)"

section \<open>Frame codec (ws-proto.ts)\<close>

record WsHeader =
  key :: string
  value' :: string

record WsFrame =
  SeqID :: int
  LogID :: int
  service :: int
  method' :: int
  headers :: "WsHeader list option"
  payloadEncoding :: "string option"
  payloadType :: "string option"
  payload :: "Uint8Array option"
  LogIDNew :: "string option"

definition WIRE_VARINT :: int where
  "WIRE_VARINT = 0"

definition WIRE_LEN :: int where
  "WIRE_LEN = 2"

definition concatBuffers :: "Uint8Array list \<Rightarrow> Uint8Array" where
  "concatBuffers chunks = concat chunks"

text \<open>
  \<^verbatim>\<open>encodeVarint\<close>: the loop pushes seven bits at a time while the rest is at least
  \<open>0x80\<close>, then the rest itself (stored into the typed array, hence its low 8 bits).
\<close>

function encodeVarint :: "int \<Rightarrow> Uint8Array" where
  "encodeVarint remaining =
     (if remaining \<ge> 0x80
      then char_of ((remaining AND 0x7f) OR 0x80) # encodeVarint (drop_bit 7 remaining)
      else [char_of remaining])"
  by pat_completeness auto
termination
  by (relation "measure nat") (auto simp: drop_bit_eq_div)

declare encodeVarint.simps [simp del]

text \<open>
  \<^verbatim>\<open>decodeVarint\<close>: the loop state is \<open>result\<close>, \<open>shift\<close> and \<open>cursor\<close>; running off
  the buffer throws.
\<close>

function decodeVarint_loop :: "Uint8Array \<Rightarrow> int \<Rightarrow> nat \<Rightarrow> nat \<Rightarrow> error + (int \<times> nat)" where
  "decodeVarint_loop buffer result shift cursor =
     (if cursor < length buffer
      then let byte = (of_char (buffer ! cursor) :: int);
               result' = result OR push_bit shift (byte AND 0x7f);
               cursor' = cursor + 1
           in if byte AND 0x80 = 0 then Inr (result', cursor')
              else decodeVarint_loop buffer result' (shift + 7) cursor'
      else Inl VarintOverflow)"
  by pat_completeness auto
termination
  by (relation "measure (\<lambda>(buffer, result, shift, cursor). length buffer - cursor)") auto

declare decodeVarint_loop.simps [simp del]

definition decodeVarint :: "Uint8Array \<Rightarrow> nat \<Rightarrow> error + (int \<times> nat)" where
  "decodeVarint buffer offset = decodeVarint_loop buffer 0 0 offset"

definition encodeTag :: "int \<Rightarrow> int \<Rightarrow> Uint8Array" where
  "encodeTag fieldNumber wireType = encodeVarint (push_bit 3 fieldNumber OR wireType)"

text \<open>
  \<^verbatim>\<open>TextEncoder.encode\<close> gives the UTF-8 bytes, which is the string as modelled.
  \<^verbatim>\<open>new TextDecoder().decode\<close> (UTF-8, \<^verbatim>\<open>ignoreBOM\<close> false) drops one leading
  byte order mark \<open>EF BB BF\<close>; on ill-formed input it would substitute U+FFFD, which is not
  modelled (the codec decodes what arrives, and the round trip only decodes well-formed text).
\<close>

definition BOM :: string where
  "BOM = [CHR 0xEF, CHR 0xBB, CHR 0xBF]"

definition encodeString :: "string \<Rightarrow> Uint8Array" where
  "encodeString v = v"

definition decodeString :: "Uint8Array \<Rightarrow> string" where
  "decodeString v = (if prefix BOM v then drop 3 v else v)"

text \<open>
  \<^verbatim>\<open>readLengthDelimited\<close>. The length is \<^verbatim>\<open>Number(lengthInfo.value)\<close>, which is exact
  below \<open>2^53\<close>; a larger value exceeds the length of every buffer before and after the
  rounding, so the range test is made on the exact value.
\<close>

definition readLengthDelimited :: "Uint8Array \<Rightarrow> nat \<Rightarrow> error + (Uint8Array \<times> nat)" where
  "readLengthDelimited buffer offset =
     (case decodeVarint buffer offset of
        Inl e \<Rightarrow> Inl e
      | Inr lengthInfo \<Rightarrow>
          let len = nat (fst lengthInfo);
              start = snd lengthInfo;
              end' = start + len
          in if end' > length buffer then Inl LengthOutOfRange
             else Inr (take (end' - start) (drop start buffer), end'))"

definition encodeHeader :: "WsHeader \<Rightarrow> Uint8Array" where
  "encodeHeader header =
     (let keyBytes = encodeString (key header);
          valueBytes = encodeString (value' header)
      in concatBuffers
           [encodeTag 1 WIRE_LEN, encodeVarint (int (length keyBytes)), keyBytes,
            encodeTag 2 WIRE_LEN, encodeVarint (int (length valueBytes)), valueBytes])"


text \<open>Each successful varint read moves the cursor forward and stays inside the buffer.\<close>

lemma decodeVarint_loop_progress:
  "decodeVarint_loop buffer result shift cursor = Inr (v, c') \<Longrightarrow>
     cursor < c' \<and> c' \<le> length buffer"
proof (induction buffer result shift cursor rule: decodeVarint_loop.induct)
  case (1 buffer result shift cursor)
  show ?case
  proof (cases "cursor < length buffer")
    case inside: True
    define byte where "byte = (of_char (buffer ! cursor) :: int)"
    define result' where "result' = result OR push_bit shift (byte AND 0x7f)"
    show ?thesis
    proof (cases "byte AND 0x80 = 0")
      case True
      with inside "1.prems" show ?thesis
        by (subst (asm) decodeVarint_loop.simps) (simp add: Let_def byte_def)
    next
      case False
      with inside "1.prems"
      have "decodeVarint_loop buffer result' (shift + 7) (cursor + 1) = Inr (v, c')"
        by (subst (asm) decodeVarint_loop.simps) (simp add: Let_def byte_def result'_def)
      with "1.IH" [OF inside byte_def result'_def refl False]
      show ?thesis by simp
    qed
  next
    case False
    with "1.prems" show ?thesis
      by (subst (asm) decodeVarint_loop.simps) simp
  qed
qed

lemma decodeVarint_progress:
  "decodeVarint buffer offset = Inr r \<Longrightarrow> offset < snd r \<and> snd r \<le> length buffer"
  using decodeVarint_loop_progress [of buffer 0 0 offset "fst r" "snd r"]
  by (simp add: decodeVarint_def)

lemma readLengthDelimited_progress:
  "readLengthDelimited buffer offset = Inr r \<Longrightarrow> offset < snd r \<and> snd r \<le> length buffer"
  by (auto simp: readLengthDelimited_def Let_def split: sum.splits if_splits
      dest!: decodeVarint_progress)

text \<open>
  \<^verbatim>\<open>decodeHeader\<close>: the loop state is \<open>offset\<close>, \<open>key\<close> and \<open>value\<close>. A wire type
  other than 0 and 2 leaves the loop (\<^verbatim>\<open>break\<close>) with what has been read.
\<close>

function decodeHeader_loop :: "Uint8Array \<Rightarrow> nat \<Rightarrow> string \<Rightarrow> string \<Rightarrow> error + WsHeader" where
  "decodeHeader_loop buffer offset k v =
     (if offset < length buffer
      then (case decodeVarint buffer offset of
              Inl e \<Rightarrow> Inl e
            | Inr tagInfo \<Rightarrow>
                if js_ToInt32 (js_Number (fst tagInfo)) AND 0x7 = WIRE_LEN
                then (case readLengthDelimited buffer (snd tagInfo) of
                        Inl e \<Rightarrow> Inl e
                      | Inr field \<Rightarrow>
                          if drop_bit 3 (js_ToInt32 (js_Number (fst tagInfo))) = 1
                          then decodeHeader_loop buffer (snd field) (decodeString (fst field)) v
                          else if drop_bit 3 (js_ToInt32 (js_Number (fst tagInfo))) = 2
                          then decodeHeader_loop buffer (snd field) k (decodeString (fst field))
                          else decodeHeader_loop buffer (snd field) k v)
                else if js_ToInt32 (js_Number (fst tagInfo)) AND 0x7 = WIRE_VARINT
                then (case decodeVarint buffer (snd tagInfo) of
                        Inl e \<Rightarrow> Inl e
                      | Inr skipped \<Rightarrow> decodeHeader_loop buffer (snd skipped) k v)
                else Inr \<lparr>key = k, value' = v\<rparr>)
      else Inr \<lparr>key = k, value' = v\<rparr>)"
  by pat_completeness auto
termination
proof (relation "measure (\<lambda>(buffer, offset, k, v). length buffer - offset)", goal_cases)
  case 1
  show ?case by simp
next
  case (2 buffer offset k v tagInfo field)
  then show ?case
    using decodeVarint_progress [of buffer offset tagInfo]
      readLengthDelimited_progress [of buffer "snd tagInfo" field]
    by auto
next
  case (3 buffer offset k v tagInfo field)
  then show ?case
    using decodeVarint_progress [of buffer offset tagInfo]
      readLengthDelimited_progress [of buffer "snd tagInfo" field]
    by auto
next
  case (4 buffer offset k v tagInfo field)
  then show ?case
    using decodeVarint_progress [of buffer offset tagInfo]
      readLengthDelimited_progress [of buffer "snd tagInfo" field]
    by auto
next
  case (5 buffer offset k v tagInfo skipped)
  then show ?case
    using decodeVarint_progress [of buffer offset tagInfo]
      decodeVarint_progress [of buffer "snd tagInfo" skipped]
    by auto
qed

declare decodeHeader_loop.simps [simp del]

definition decodeHeader :: "Uint8Array \<Rightarrow> error + WsHeader" where
  "decodeHeader buffer = decodeHeader_loop buffer 0 [] []"

text \<open>
  \<^verbatim>\<open>decodeFrame\<close>: the two bodies of the loop, one per wire type, as functions of the
  field number, the value read and the frame built so far.
\<close>

definition setVarintField :: "int \<Rightarrow> int \<Rightarrow> WsFrame \<Rightarrow> WsFrame" where
  "setVarintField fieldNumber v frame =
     (let f1 = (if fieldNumber = 1 then frame\<lparr>SeqID := v\<rparr> else frame);
          f2 = (if fieldNumber = 2 then f1\<lparr>LogID := v\<rparr> else f1);
          f3 = (if fieldNumber = 3 then f2\<lparr>service := js_Number v\<rparr> else f2)
      in (if fieldNumber = 4 then f3\<lparr>method' := js_Number v\<rparr> else f3))"

definition pushHeader :: "WsHeader \<Rightarrow> WsFrame \<Rightarrow> WsFrame" where
  "pushHeader h frame =
     (case headers frame of
        None \<Rightarrow> frame
      | Some hs \<Rightarrow> frame\<lparr>headers := Some (hs @ [h])\<rparr>)"

definition setLenField :: "int \<Rightarrow> Uint8Array \<Rightarrow> WsFrame \<Rightarrow> error + WsFrame" where
  "setLenField fieldNumber v frame =
     (if fieldNumber = 5
      then (case decodeHeader v of Inl e \<Rightarrow> Inl e | Inr h \<Rightarrow> Inr (pushHeader h frame))
      else if fieldNumber = 6 then Inr (frame\<lparr>payloadEncoding := Some (decodeString v)\<rparr>)
      else if fieldNumber = 7 then Inr (frame\<lparr>payloadType := Some (decodeString v)\<rparr>)
      else if fieldNumber = 8 then Inr (frame\<lparr>payload := Some v\<rparr>)
      else if fieldNumber = 9 then Inr (frame\<lparr>LogIDNew := Some (decodeString v)\<rparr>)
      else Inr frame)"

function decodeFrame_loop :: "Uint8Array \<Rightarrow> nat \<Rightarrow> WsFrame \<Rightarrow> error + WsFrame" where
  "decodeFrame_loop buffer offset frame =
     (if offset < length buffer
      then (case decodeVarint buffer offset of
              Inl e \<Rightarrow> Inl e
            | Inr tagInfo \<Rightarrow>
                if js_ToInt32 (js_Number (fst tagInfo)) AND 0x7 = WIRE_VARINT
                then (case decodeVarint buffer (snd tagInfo) of
                        Inl e \<Rightarrow> Inl e
                      | Inr field \<Rightarrow>
                          decodeFrame_loop buffer (snd field)
                            (setVarintField (drop_bit 3 (js_ToInt32 (js_Number (fst tagInfo))))
                               (fst field) frame))
                else if js_ToInt32 (js_Number (fst tagInfo)) AND 0x7 = WIRE_LEN
                then (case readLengthDelimited buffer (snd tagInfo) of
                        Inl e \<Rightarrow> Inl e
                      | Inr field \<Rightarrow>
                          (case setLenField (drop_bit 3 (js_ToInt32 (js_Number (fst tagInfo))))
                                  (fst field) frame of
                             Inl e \<Rightarrow> Inl e
                           | Inr frame' \<Rightarrow> decodeFrame_loop buffer (snd field) frame'))
                else Inr frame)
      else Inr frame)"
  by pat_completeness auto
termination
proof (relation "measure (\<lambda>(buffer, offset, frame). length buffer - offset)", goal_cases)
  case 1
  show ?case by simp
next
  case (2 buffer offset frame tagInfo field)
  then show ?case
    using decodeVarint_progress [of buffer offset tagInfo]
      decodeVarint_progress [of buffer "snd tagInfo" field]
    by auto
next
  case (3 buffer offset frame tagInfo field frame')
  then show ?case
    using decodeVarint_progress [of buffer offset tagInfo]
      readLengthDelimited_progress [of buffer "snd tagInfo" field]
    by auto
qed

declare decodeFrame_loop.simps [simp del]

definition decodeFrame :: "Uint8Array \<Rightarrow> error + WsFrame" where
  "decodeFrame buffer =
     decodeFrame_loop buffer 0
       \<lparr>SeqID = 0, LogID = 0, service = 0, method' = 0, headers = Some [],
        payloadEncoding = None, payloadType = None, payload = None, LogIDNew = None\<rparr>"

text \<open>
  \<^verbatim>\<open>encodeFrame\<close>. The guards are JavaScript truthiness: \<^verbatim>\<open>frame.headers?.length\<close>
  fails for an absent and for an empty list, a string guard fails for an absent and for an
  empty string, and \<^verbatim>\<open>frame.payload\<close> (an object) fails only when absent.
\<close>

definition lenField :: "int \<Rightarrow> Uint8Array \<Rightarrow> Uint8Array list" where
  "lenField fieldNumber bytes =
     [encodeTag fieldNumber WIRE_LEN, encodeVarint (int (length bytes)), bytes]"

definition encodeFrame :: "WsFrame \<Rightarrow> Uint8Array" where
  "encodeFrame frame =
     concatBuffers
       ([encodeTag 1 WIRE_VARINT, encodeVarint (SeqID frame),
         encodeTag 2 WIRE_VARINT, encodeVarint (LogID frame),
         encodeTag 3 WIRE_VARINT, encodeVarint (service frame),
         encodeTag 4 WIRE_VARINT, encodeVarint (method' frame)]
        @ (case headers frame of
             None \<Rightarrow> []
           | Some hs \<Rightarrow> concat (map (\<lambda>header. lenField 5 (encodeHeader header)) hs))
        @ (case payloadEncoding frame of
             None \<Rightarrow> []
           | Some v \<Rightarrow> if v = [] then [] else lenField 6 (encodeString v))
        @ (case payloadType frame of
             None \<Rightarrow> []
           | Some v \<Rightarrow> if v = [] then [] else lenField 7 (encodeString v))
        @ (case payload frame of
             None \<Rightarrow> []
           | Some v \<Rightarrow> lenField 8 v)
        @ (case LogIDNew frame of
             None \<Rightarrow> []
           | Some v \<Rightarrow> if v = [] then [] else lenField 9 (encodeString v)))"


section \<open>Chunk reassembly cache (ws-data-cache.ts)\<close>

datatype JsonValue =
    JNull
  | JBool bool
  | JNumber rat
  | JString string
  | JArray "JsonValue list"
  | JObject "(string \<times> JsonValue) list"

text \<open>
  A \<^verbatim>\<open>number\<close> used as an array length or index: an integer, or anything else
  (\<^verbatim>\<open>NaN\<close>, a fraction, an infinity), which no array operation takes for an index.
\<close>

datatype number = Integer int | NotInteger

text \<open>
  An element of the JavaScript array \<^verbatim>\<open>buffer\<close>: a hole (an index below the length that
  was never assigned, which \<^verbatim>\<open>every\<close> and \<^verbatim>\<open>reduce\<close> skip), the value
  \<^verbatim>\<open>undefined\<close>, or a chunk.
\<close>

datatype slot = Hole | Undefined | Chunk Uint8Array

record CacheEntry =
  buffer :: "slot list"
  traceId :: string
  messageId :: string
  createdAt :: int

type_synonym Cache = "string \<rightharpoonup> CacheEntry"

text \<open>\<^verbatim>\<open>new Array(sum).fill(undefined)\<close>: a length that is not an integer in \<open>[0, 2^32)\<close> throws.\<close>

definition array_new :: "number \<Rightarrow> error + slot list" where
  "array_new sumv =
     (case sumv of
        NotInteger \<Rightarrow> Inl RangeError
      | Integer n \<Rightarrow>
          if 0 \<le> n \<and> n < 2 ^ 32 then Inr (replicate (nat n) Undefined) else Inl RangeError)"

text \<open>
  \<^verbatim>\<open>buffer[seq] = data\<close>: an index past the end extends the array with holes; a key that is
  not an array index (negative, not an integer, \<open>2^32 - 1\<close> or more) becomes a plain property
  and changes no element.
\<close>

definition array_set :: "slot list \<Rightarrow> number \<Rightarrow> Uint8Array \<Rightarrow> slot list" where
  "array_set buf seq data =
     (case seq of
        NotInteger \<Rightarrow> buf
      | Integer i \<Rightarrow>
          if 0 \<le> i \<and> i < 2 ^ 32 - 1
          then (if nat i < length buf then buf[nat i := Chunk data]
                else buf @ replicate (nat i - length buf) Hole @ [Chunk data])
          else buf)"

text \<open>\<^verbatim>\<open>buffer.every(Boolean)\<close>: holes are skipped and a chunk (an object) is truthy.\<close>

definition every_Boolean :: "slot list \<Rightarrow> bool" where
  "every_Boolean buf = list_all (\<lambda>s. s \<noteq> Undefined) buf"

text \<open>The \<^verbatim>\<open>reduce\<close> that concatenates: holes are skipped, \<^verbatim>\<open>undefined\<close> adds nothing.\<close>

definition reduce_concat :: "slot list \<Rightarrow> Uint8Array" where
  "reduce_concat buf = concat (map (\<lambda>s. case s of Chunk d \<Rightarrow> d | _ \<Rightarrow> []) buf)"

text \<open>
  \<^verbatim>\<open>WsDataCache.mergeData\<close>. The parameter \<open>parse\<close> is
  \<^verbatim>\<open>JSON.parse(new TextDecoder("utf-8").decode(full))\<close> (\<open>None\<close> when it throws) and
  \<open>now\<close> is the reading of \<^verbatim>\<open>Date.now()\<close>. The result is what the call returns or throws,
  and the cache after the call (a throw of \<^verbatim>\<open>JSON.parse\<close> comes after the chunk was stored
  and before the entry is deleted). The returned \<^verbatim>\<open>null\<close> is \<^const>\<open>JNull\<close>.
\<close>

definition mergeData ::
  "(Uint8Array \<Rightarrow> JsonValue option) \<Rightarrow> int \<Rightarrow> string \<Rightarrow> number \<Rightarrow> number \<Rightarrow> string \<Rightarrow> Uint8Array
     \<Rightarrow> Cache \<Rightarrow> (error + JsonValue) \<times> Cache" where
  "mergeData parse now mid sumv seq tid data c =
     (case (case c mid of
              None \<Rightarrow>
                (case array_new sumv of
                   Inl e \<Rightarrow> Inl e
                 | Inr fresh \<Rightarrow>
                     Inr (c(mid \<mapsto> \<lparr>buffer = array_set fresh seq data, traceId = tid,
                                      messageId = mid, createdAt = now\<rparr>)))
            | Some cached \<Rightarrow>
                Inr (c(mid \<mapsto> cached\<lparr>buffer := array_set (buffer cached) seq data\<rparr>))) of
        Inl e \<Rightarrow> (Inl e, c)
      | Inr c1 \<Rightarrow>
          (case c1 mid of
             None \<Rightarrow> (Inr JNull, c1)
           | Some merged \<Rightarrow>
               if \<not> every_Boolean (buffer merged) then (Inr JNull, c1)
               else (case parse (reduce_concat (buffer merged)) of
                       None \<Rightarrow> (Inl SyntaxError, c1)
                     | Some parsed \<Rightarrow> (Inr parsed, c1(mid := None)))))"

text \<open>
  A sequence of calls for one message id with one chunk count: each call is
  \<open>(seq, traceId, data, now)\<close>; the results are collected in call order.
\<close>

fun mergeAll ::
  "(Uint8Array \<Rightarrow> JsonValue option) \<Rightarrow> string \<Rightarrow> number \<Rightarrow> (number \<times> string \<times> Uint8Array \<times> int) list
     \<Rightarrow> Cache \<Rightarrow> (error + JsonValue) list \<times> Cache" where
  "mergeAll parse mid sumv [] c = ([], c)"
| "mergeAll parse mid sumv ((seq, tid, data, now) # calls) c =
     (let (r, c1) = mergeData parse now mid sumv seq tid data c;
          (rs, c2) = mergeAll parse mid sumv calls c1
      in (r # rs, c2))"

section \<open>Connection state machine (the WebSocket client of outbound.ts)\<close>

record WsConnectConfig =
  connectUrl :: string
  pingInterval :: rat
  reconnectCount :: rat
  reconnectInterval :: rat
  reconnectNonce :: rat
  deviceId :: string
  serviceId :: string

definition FRAME_TYPE_CONTROL :: int where "FRAME_TYPE_CONTROL = 0"
definition FRAME_TYPE_DATA :: int where "FRAME_TYPE_DATA = 1"
definition HEADER_TYPE :: string where "HEADER_TYPE = ''type''"
definition HEADER_MESSAGE_ID :: string where "HEADER_MESSAGE_ID = ''message_id''"
definition HEADER_SUM :: string where "HEADER_SUM = ''sum''"
definition HEADER_SEQ :: string where "HEADER_SEQ = ''seq''"
definition HEADER_TRACE_ID :: string where "HEADER_TRACE_ID = ''trace_id''"
definition HEADER_BIZ_RT :: string where "HEADER_BIZ_RT = ''biz_rt''"
definition MESSAGE_EVENT :: string where "MESSAGE_EVENT = ''event''"
definition MESSAGE_PING :: string where "MESSAGE_PING = ''ping''"
definition MESSAGE_PONG :: string where "MESSAGE_PONG = ''pong''"
definition STATUS_OK :: string where "STATUS_OK = ''200''"

text \<open>
  \<^verbatim>\<open>getReconnectDelay\<close>; \<open>random\<close> is the value that \<^verbatim>\<open>Math.random()\<close> returns,
  a number in \<open>[0, 1)\<close>.
\<close>

definition getReconnectDelay :: "WsConnectConfig option \<Rightarrow> rat \<Rightarrow> rat" where
  "getReconnectDelay cfg random =
     (let base = (case cfg of None \<Rightarrow> 120000 | Some c \<Rightarrow> reconnectInterval c);
          jitter = (case cfg of None \<Rightarrow> 30000 | Some c \<Rightarrow> reconnectNonce c)
      in base + random * jitter)"

text \<open>
  The payload of a pong frame as the code reads it after \<^verbatim>\<open>JSON.parse\<close>: four optional
  numbers (\<open>None\<close> for a member that is missing or \<^verbatim>\<open>null\<close>, which \<^verbatim>\<open>??\<close> replaces).
\<close>

record PongPayload =
  PingInterval :: "rat option"
  ReconnectCount :: "rat option"
  ReconnectInterval :: "rat option"
  ReconnectNonce :: "rat option"

text \<open>
  The header lookup of \<^verbatim>\<open>handleControlFrame\<close>:
  \<^verbatim>\<open>frame.headers?.find((item) => item.key === HEADER_TYPE)?.value ?? ""\<close>.
\<close>

definition handleControlFrame_type :: "WsFrame \<Rightarrow> string" where
  "handleControlFrame_type frame =
     (case headers frame of
        None \<Rightarrow> []
      | Some hs \<Rightarrow>
          (case find (\<lambda>item. key item = HEADER_TYPE) hs of
             None \<Rightarrow> []
           | Some item \<Rightarrow> value' item))"

text \<open>
  \<^verbatim>\<open>handleControlFrame\<close>, as a function from the session configuration to the new one.
  \<open>parsePong\<close> is \<^verbatim>\<open>JSON.parse(new TextDecoder("utf-8").decode(frame.payload))\<close> read
  at the declared type; \<open>None\<close> when it throws, which the \<^verbatim>\<open>catch\<close> turns into a warning.
\<close>

definition handleControlFrame ::
  "(Uint8Array \<Rightarrow> PongPayload option) \<Rightarrow> WsFrame \<Rightarrow> WsConnectConfig option \<Rightarrow> WsConnectConfig option" where
  "handleControlFrame parsePong frame wsConfig =
     (let type = handleControlFrame_type frame
      in if type = MESSAGE_PING then wsConfig
         else if type \<noteq> MESSAGE_PONG \<or> payload frame = None then wsConfig
         else (case parsePong (the (payload frame)) of
                 None \<Rightarrow> wsConfig
               | Some p \<Rightarrow>
                   (case wsConfig of
                      None \<Rightarrow> None
                    | Some cfg \<Rightarrow>
                        Some (cfg\<lparr>
                          pingInterval :=
                            (case PingInterval p of None \<Rightarrow> pingInterval cfg / 1000 | Some v \<Rightarrow> v)
                              * 1000,
                          reconnectCount :=
                            (case ReconnectCount p of None \<Rightarrow> reconnectCount cfg | Some v \<Rightarrow> v),
                          reconnectInterval :=
                            (case ReconnectInterval p of
                               None \<Rightarrow> reconnectInterval cfg / 1000 | Some v \<Rightarrow> v) * 1000,
                          reconnectNonce :=
                            (case ReconnectNonce p of
                               None \<Rightarrow> reconnectNonce cfg / 1000 | Some v \<Rightarrow> v) * 1000\<rparr>))))"

text \<open>
  The header lookup of \<^verbatim>\<open>handleEventFrame\<close>: a \<^verbatim>\<open>Map\<close> built from the entries in
  order, each \<^verbatim>\<open>set\<close> replacing the value of a key already there, read with \<^verbatim>\<open>get\<close>.
\<close>

definition new_Map :: "(string \<times> string) list \<Rightarrow> (string \<rightharpoonup> string)" where
  "new_Map entries = foldl (\<lambda>m (k, v). m(k \<mapsto> v)) Map.empty entries"

definition handleEventFrame_headerMap :: "WsFrame \<Rightarrow> (string \<rightharpoonup> string)" where
  "handleEventFrame_headerMap frame =
     new_Map (case headers frame of
                None \<Rightarrow> []
              | Some hs \<Rightarrow> map (\<lambda>item. (key item, value' item)) hs)"


text \<open>JavaScript truthiness of a JSON value (\<^verbatim>\<open>!merged\<close>, \<^verbatim>\<open>if (response)\<close>).\<close>

fun truthy :: "JsonValue \<Rightarrow> bool" where
  "truthy JNull = False"
| "truthy (JBool b) = b"
| "truthy (JNumber n) = (n \<noteq> 0)"
| "truthy (JString s) = (s \<noteq> [])"
| "truthy (JArray xs) = True"
| "truthy (JObject ms) = True"

text \<open>
  \<^verbatim>\<open>String(n)\<close> of an integer number, in decimal (the elapsed time \<^verbatim>\<open>end - start\<close> of two
  clock readings; the exponent notation of numbers from \<open>10^21\<close> on is not modelled).
\<close>

function decimal :: "nat \<Rightarrow> string" where
  "decimal n = (if n < 10 then [char_of (48 + n)] else decimal (n div 10) @ [char_of (48 + n mod 10)])"
  by pat_completeness auto
termination
  by (relation "measure id") auto

declare decimal.simps [simp del]

definition js_String :: "int \<Rightarrow> string" where
  "js_String n = (if n < 0 then CHR ''-'' # decimal (nat (- n)) else decimal (nat n))"

text \<open>
  The socket as the client uses it: its \<^verbatim>\<open>readyState\<close> and the byte blobs handed to
  \<^verbatim>\<open>send\<close>, in order.
\<close>

record WebSocketLike =
  readyState :: nat
  sent :: "Uint8Array list"

text \<open>
  The state of \<^verbatim>\<open>FeishuWsClient\<close> that the message path reads and writes. The event handler
  returns a value, nothing (\<open>Inr None\<close>), or throws (\<open>Inl e\<close>).
\<close>

record FeishuWsClient =
  cache :: Cache
  wsConfig :: "WsConnectConfig option"
  ws :: "WebSocketLike option"
  eventHandler :: "(JsonValue \<Rightarrow> error + JsonValue option) option"

definition sendFrame :: "WsFrame \<Rightarrow> FeishuWsClient \<Rightarrow> FeishuWsClient" where
  "sendFrame frame client =
     (case ws client of
        None \<Rightarrow> client
      | Some sock \<Rightarrow>
          if readyState sock \<noteq> 1 then client
          else client\<lparr>ws := Some (sock\<lparr>sent := sent sock @ [encodeFrame frame]\<rparr>)\<rparr>)"

text \<open>
  The frame that \<^verbatim>\<open>handleEventFrame\<close> builds after the handler has run: \<open>response\<close> is
  the handler's value (\<open>None\<close> when it returned nothing or threw), \<open>toBase64\<close> is
  \<^verbatim>\<open>Buffer.from(JSON.stringify(response)).toString("base64")\<close>, and \<open>elapsed\<close> is
  \<^verbatim>\<open>end - start\<close>. The payload is the text of \<^verbatim>\<open>JSON.stringify(respPayload)\<close>.
\<close>

definition responseFrame ::
  "(JsonValue \<Rightarrow> string) \<Rightarrow> WsFrame \<Rightarrow> JsonValue option \<Rightarrow> int \<Rightarrow> WsFrame" where
  "responseFrame toBase64 frame response elapsed =
     (let respPayload =
            (case response of
               None \<Rightarrow> ''{\"code\":'' @ STATUS_OK @ ''}''
             | Some r \<Rightarrow>
                 if truthy r
                 then ''{\"code\":'' @ STATUS_OK @ '',\"data\":\"'' @ toBase64 r @ ''\"}''
                 else ''{\"code\":'' @ STATUS_OK @ ''}'');
          payloadBytes = encodeString respPayload;
          hdrs = (case headers frame of None \<Rightarrow> [] | Some hs \<Rightarrow> hs)
                   @ [\<lparr>key = HEADER_BIZ_RT, value' = js_String elapsed\<rparr>]
      in frame\<lparr>headers := Some hdrs, payload := Some payloadBytes\<rparr>)"

text \<open>
  \<^verbatim>\<open>handleEventFrame\<close>, in two parts. The first reads the headers and calls the cache:
  \<open>toNumber\<close> is \<^verbatim>\<open>Number\<close> on a header string, \<open>parse\<close> and \<open>now\<close> are those of
  \<^const>\<open>mergeData\<close>.
\<close>

definition handleEventFrame_merge ::
  "(string \<Rightarrow> number) \<Rightarrow> (Uint8Array \<Rightarrow> JsonValue option) \<Rightarrow> int \<Rightarrow> WsFrame \<Rightarrow> Cache
     \<Rightarrow> (error + JsonValue) \<times> Cache" where
  "handleEventFrame_merge toNumber parse now frame c =
     (let headerMap = handleEventFrame_headerMap frame;
          mid = (case headerMap HEADER_MESSAGE_ID of None \<Rightarrow> [] | Some v \<Rightarrow> v);
          sumv = toNumber (case headerMap HEADER_SUM of None \<Rightarrow> ''1'' | Some v \<Rightarrow> v);
          seq = toNumber (case headerMap HEADER_SEQ of None \<Rightarrow> ''0'' | Some v \<Rightarrow> v);
          tid = (case headerMap HEADER_TRACE_ID of None \<Rightarrow> [] | Some v \<Rightarrow> v)
      in mergeData parse now mid sumv seq tid (the (payload frame)) c)"

text \<open>
  The whole of \<^verbatim>\<open>handleEventFrame\<close>: \<open>start\<close> and \<open>end'\<close> are the clock readings around
  the handler. The result is the exception that leaves the function, if any, and the client
  state after it. (The socket is read when the frame is sent, after the handler has run;
  the client state given is the one at that moment.)
\<close>

definition handleEventFrame ::
  "(string \<Rightarrow> number) \<Rightarrow> (Uint8Array \<Rightarrow> JsonValue option) \<Rightarrow> (JsonValue \<Rightarrow> string) \<Rightarrow> int \<Rightarrow> int \<Rightarrow> int
     \<Rightarrow> WsFrame \<Rightarrow> FeishuWsClient \<Rightarrow> error option \<times> FeishuWsClient" where
  "handleEventFrame toNumber parse toBase64 now start end' frame client =
     (let type = (case handleEventFrame_headerMap frame HEADER_TYPE of
                    None \<Rightarrow> []
                  | Some v \<Rightarrow> v)
      in if type \<noteq> MESSAGE_EVENT \<or> payload frame = None then (None, client)
         else (case handleEventFrame_merge toNumber parse now frame (cache client) of
                 (Inl e, c1) \<Rightarrow> (Some e, client\<lparr>cache := c1\<rparr>)
               | (Inr merged, c1) \<Rightarrow>
                   if \<not> truthy merged \<or> eventHandler client = None
                   then (None, client\<lparr>cache := c1\<rparr>)
                   else let response =
                              (case the (eventHandler client) merged of
                                 Inl err \<Rightarrow> None
                               | Inr r \<Rightarrow> r)
                        in (None,
                            sendFrame (responseFrame toBase64 frame response (end' - start))
                              (client\<lparr>cache := c1\<rparr>))))"

text \<open>
  The message listener of \<^verbatim>\<open>bindMessages\<close>, for a payload that is a byte array: whatever
  the decoding or a handler throws is caught and logged.
\<close>

definition onMessage ::
  "(Uint8Array \<Rightarrow> PongPayload option) \<Rightarrow> (string \<Rightarrow> number) \<Rightarrow> (Uint8Array \<Rightarrow> JsonValue option)
     \<Rightarrow> (JsonValue \<Rightarrow> string) \<Rightarrow> int \<Rightarrow> int \<Rightarrow> int \<Rightarrow> Uint8Array \<Rightarrow> FeishuWsClient \<Rightarrow> FeishuWsClient" where
  "onMessage parsePong toNumber parse toBase64 now start end' bytes client =
     (case decodeFrame bytes of
        Inl e \<Rightarrow> client
      | Inr frame \<Rightarrow>
          if method' frame = FRAME_TYPE_CONTROL
          then client\<lparr>wsConfig := handleControlFrame parsePong frame (wsConfig client)\<rparr>
          else if method' frame = FRAME_TYPE_DATA
          then snd (handleEventFrame toNumber parse toBase64 now start end' frame client)
          else client)"

section \<open>Callback verifier (events.ts)\<close>

record FeishuCallbackEnvelopeHeader =
  header_token :: "string option"
  event_type :: "string option"
  event_id :: "string option"
  create_time :: "string option"
  app_id :: "string option"
  tenant_key :: "string option"

record FeishuCallbackEnvelope =
  encrypt :: "string option"
  type' :: "string option"
  challenge :: "string option"
  token :: "string option"
  schema :: "string option"
  event :: "JsonValue option"
  header :: "FeishuCallbackEnvelopeHeader option"

datatype FeishuCallbackResult =
    Challenge string
  | Event FeishuCallbackEnvelope

record FeishuSignatureHeaders =
  signature :: "string option"
  timestamp :: "string option"
  nonce :: "string option"

record FeishuEventVerification =
  verificationToken :: "string option"
  encryptKey :: "string option"
  appSecret :: "string option"

text \<open>
  \<^verbatim>\<open>String.prototype.trim\<close>: the white space and line terminators of ECMAScript, in UTF-8
  (tab, LF, VT, FF, CR, space, U+00A0, U+1680, U+2000 to U+200A, U+2028, U+2029, U+202F,
  U+205F, U+3000, U+FEFF).
\<close>

definition js_whitespace :: "string list" where
  "js_whitespace =
     [[CHR 0x09], [CHR 0x0A], [CHR 0x0B], [CHR 0x0C], [CHR 0x0D], [CHR 0x20],
      [CHR 0xC2, CHR 0xA0], [CHR 0xE1, CHR 0x9A, CHR 0x80],
      [CHR 0xE2, CHR 0x80, CHR 0x80], [CHR 0xE2, CHR 0x80, CHR 0x81],
      [CHR 0xE2, CHR 0x80, CHR 0x82], [CHR 0xE2, CHR 0x80, CHR 0x83],
      [CHR 0xE2, CHR 0x80, CHR 0x84], [CHR 0xE2, CHR 0x80, CHR 0x85],
      [CHR 0xE2, CHR 0x80, CHR 0x86], [CHR 0xE2, CHR 0x80, CHR 0x87],
      [CHR 0xE2, CHR 0x80, CHR 0x88], [CHR 0xE2, CHR 0x80, CHR 0x89],
      [CHR 0xE2, CHR 0x80, CHR 0x8A], [CHR 0xE2, CHR 0x80, CHR 0xA8],
      [CHR 0xE2, CHR 0x80, CHR 0xA9], [CHR 0xE2, CHR 0x80, CHR 0xAF],
      [CHR 0xE2, CHR 0x81, CHR 0x9F], [CHR 0xE3, CHR 0x80, CHR 0x80],
      [CHR 0xEF, CHR 0xBB, CHR 0xBF]]"

lemma js_whitespace_nonempty: "w \<in> set js_whitespace \<Longrightarrow> w \<noteq> []"
  by (auto simp: js_whitespace_def)

function trimStart :: "string \<Rightarrow> string" where
  "trimStart s =
     (case find (\<lambda>w. prefix w s) js_whitespace of
        None \<Rightarrow> s
      | Some w \<Rightarrow> trimStart (drop (length w) s))"
  by pat_completeness auto
termination
proof (relation "measure length", goal_cases)
  case 1
  show ?case by simp
next
  case (2 s w)
  then have "w \<in> set js_whitespace" and "prefix w s"
    by (auto simp: find_Some_iff)
  then have "w \<noteq> []" and "s \<noteq> []"
    using js_whitespace_nonempty by auto
  then show ?case by simp
qed

declare trimStart.simps [simp del]

function trimEnd :: "string \<Rightarrow> string" where
  "trimEnd s =
     (case find (\<lambda>w. suffix w s) js_whitespace of
        None \<Rightarrow> s
      | Some w \<Rightarrow> trimEnd (take (length s - length w) s))"
  by pat_completeness auto
termination
proof (relation "measure length", goal_cases)
  case 1
  show ?case by simp
next
  case (2 s w)
  then have "w \<in> set js_whitespace" and "suffix w s"
    by (auto simp: find_Some_iff)
  then have "w \<noteq> []" and "s \<noteq> []"
    using js_whitespace_nonempty by auto
  then show ?case by simp
qed

declare trimEnd.simps [simp del]

definition trim :: "string \<Rightarrow> string" where
  "trim s = trimEnd (trimStart s)"

text \<open>
  \<^verbatim>\<open>toLowerCase\<close> on the letters A to Z. The result is only compared with the ASCII words
  "challenge" and "url_verification"; no character outside ASCII has a lower case that
  occurs in them, so the comparison is the one the source makes.
\<close>

definition toLowerCase :: "string \<Rightarrow> string" where
  "toLowerCase s =
     map (\<lambda>c. if 65 \<le> (of_char c :: nat) \<and> (of_char c :: nat) \<le> 90
               then char_of ((of_char c :: nat) + 32) else c) s"

definition normalizeType :: "string option \<Rightarrow> string" where
  "normalizeType v = (case v of None \<Rightarrow> [] | Some x \<Rightarrow> toLowerCase (trim x))"

definition extractToken :: "FeishuCallbackEnvelope \<Rightarrow> string option" where
  "extractToken p =
     (case header p of
        None \<Rightarrow> token p
      | Some h \<Rightarrow> (case header_token h of None \<Rightarrow> token p | Some t \<Rightarrow> Some t))"

text \<open>A string that is present and not empty (the truthiness of an optional string).\<close>

definition nonEmpty :: "string option \<Rightarrow> bool" where
  "nonEmpty v = (case v of None \<Rightarrow> False | Some x \<Rightarrow> x \<noteq> [])"

text \<open>
  \<^verbatim>\<open>parseFeishuCallback\<close>. The parameters stand for the platform: \<open>sha256Hex\<close> is the
  digest of \<^verbatim>\<open>node:crypto\<close> in hexadecimal, \<open>parseJson\<close> is \<^verbatim>\<open>JSON.parse\<close> read at the
  declared envelope type (\<open>None\<close> when it throws, or gives \<^verbatim>\<open>null\<close>, whose first member
  access throws), and \<open>decrypt key text\<close> is
  \<^verbatim>\<open>new AESCipher(key).decrypt(text)\<close> (\<open>None\<close> when the cipher throws).
\<close>

definition parseFeishuCallback ::
  "(string \<Rightarrow> string) \<Rightarrow> (string \<Rightarrow> FeishuCallbackEnvelope option) \<Rightarrow> (string \<Rightarrow> string \<Rightarrow> string option)
     \<Rightarrow> string \<Rightarrow> FeishuSignatureHeaders \<Rightarrow> FeishuEventVerification \<Rightarrow> error + FeishuCallbackResult" where
  "parseFeishuCallback sha256Hex parseJson decrypt rawBody hdrs verification =
     (if rawBody = [] then Inl BodyEmpty
      else if nonEmpty (signature hdrs) \<and> \<not> nonEmpty (map_option trim (appSecret verification))
      then Inl AppSecretMissing
      else if nonEmpty (signature hdrs)
              \<and> sha256Hex ((case timestamp hdrs of None \<Rightarrow> [] | Some t \<Rightarrow> trim t)
                            @ (case nonce hdrs of None \<Rightarrow> [] | Some n \<Rightarrow> trim n)
                            @ rawBody
                            @ trim (the (appSecret verification)))
                  \<noteq> the (signature hdrs)
      then Inl SignatureMismatch
      else (case parseJson rawBody of
              None \<Rightarrow> Inl SyntaxError
            | Some outer \<Rightarrow>
                (case (if nonEmpty (encrypt outer)
                       then (if \<not> nonEmpty (map_option trim (encryptKey verification))
                             then Inl EncryptKeyMissing
                             else (case decrypt (trim (the (encryptKey verification)))
                                          (the (encrypt outer)) of
                                     None \<Rightarrow> Inl DecryptError
                                   | Some decrypted \<Rightarrow>
                                       (case parseJson decrypted of
                                          None \<Rightarrow> Inl SyntaxError
                                        | Some inner \<Rightarrow> Inr inner)))
                       else Inr outer) of
                   Inl e \<Rightarrow> Inl e
                 | Inr p \<Rightarrow>
                     if nonEmpty (map_option trim (verificationToken verification))
                        \<and> extractToken p \<noteq> map_option trim (verificationToken verification)
                     then Inl TokenMismatch
                     else if normalizeType (type' p) = ''challenge''
                             \<or> normalizeType (type' p) = ''url_verification''
                     then (if \<not> nonEmpty (challenge p) then Inl ChallengeMissing
                           else Inr (Challenge (the (challenge p))))
                     else Inr (Event p))))"

section \<open>Sample inputs and auxiliary notions\<close>

text \<open>
  The session configuration that the negotiation gives for the URL
  \<open>wss://x?device_id=5&service_id=9\<close> and no client configuration (the defaults in
  milliseconds), and a pong frame with two timer hints.
\<close>

definition negotiated :: WsConnectConfig where
  "negotiated = \<lparr>connectUrl = ''wss://x?device_id=5&service_id=9'', pingInterval = 120000,
     reconnectCount = -1, reconnectInterval = 120000, reconnectNonce = 30000,
     deviceId = ''5'', serviceId = ''9''\<rparr>"




text \<open>A data frame whose headers hold the key "type" twice.\<close>

definition twoTypes :: WsFrame where
  "twoTypes = \<lparr>SeqID = 1, LogID = 2, service = 9, method' = 1,
     headers = Some [\<lparr>key = ''type'', value' = ''event''\<rparr>,
                     \<lparr>key = ''type'', value' = ''ping''\<rparr>],
     payloadEncoding = None, payloadType = None, payload = Some ''{}'', LogIDNew = None\<rparr>"

text \<open>The challenge request of the worked example, and what it parses to.\<close>

definition challengeBody :: string where
  "challengeBody = ''{\"type\":\"url_verification\",\"challenge\":\"c1\",\"token\":\"v\"}''"

definition challengeEnvelope :: FeishuCallbackEnvelope where
  "challengeEnvelope = \<lparr>encrypt = None, type' = Some ''url_verification'',
     challenge = Some ''c1'', token = Some ''v'', schema = None, event = None, header = None\<rparr>"

text \<open>
  The platform functions at the points the examples use. \<^verbatim>\<open>JSON.parse\<close> reads
  \<^const>\<open>challengeBody\<close> as \<^const>\<open>challengeEnvelope\<close> and rejects the text \<open>{\<close>; the SHA-256 digest
  of the message \<open>12\<close>, \<^const>\<open>challengeBody\<close>, \<open>s\<close> is the 64 hexadecimal digits below; no
  example carries a ciphertext.
\<close>

definition parseJson_example :: "string \<Rightarrow> FeishuCallbackEnvelope option" where
  "parseJson_example text = (if text = challengeBody then Some challengeEnvelope else None)"

definition sha256Hex_example :: "string \<Rightarrow> string" where
  "sha256Hex_example text =
     (if text = ''12'' @ challengeBody @ ''s''
      then ''011dd543d8bb6346c0c9b7aaa7be62fbfa2bd36389063a6b0596934db8531451''
      else [])"

definition decrypt_example :: "string \<Rightarrow> string \<Rightarrow> string option" where
  "decrypt_example k text = None"

definition challengeHeaders :: "string option \<Rightarrow> FeishuSignatureHeaders" where
  "challengeHeaders sig = \<lparr>signature = sig, timestamp = Some ''1'', nonce = Some ''2''\<rparr>"

definition challengeVerification :: FeishuEventVerification where
  "challengeVerification = \<lparr>verificationToken = Some ''v'', encryptKey = None, appSecret = Some ''s''\<rparr>"


text \<open>
  The state of an assembly that still misses the chunk of slot \<open>i\<close>: no entry yet, or an entry
  whose slot \<open>i\<close> holds \<^verbatim>\<open>undefined\<close>.
\<close>

definition missing :: "nat \<Rightarrow> string \<Rightarrow> Cache \<Rightarrow> bool" where
  "missing i mid c =
     (case c mid of
        None \<Rightarrow> True
      | Some entry \<Rightarrow> i < length (buffer entry) \<and> buffer entry ! i = Undefined)"

text \<open>What \<^verbatim>\<open>JSON.parse\<close> makes of the text \<open>{"ok":true}\<close>; the examples complete no other text.\<close>

definition parseValue_example :: "Uint8Array \<Rightarrow> JsonValue option" where
  "parseValue_example bytes =
     (if bytes = ''{\"ok\":true}'' then Some (JObject [(''ok'', JBool True)]) else None)"










section \<open>Verified properties\<close>

subsection \<open>Reconnect delay\<close>

text \<open>
  Claim C9, as amended. For every session configuration whose \<open>reconnectNonce\<close> (the jitter)
  is not negative and every value in \<open>[0, 1)\<close> of the random draw, the reconnect delay is at
  least \<open>reconnectInterval\<close> and at most \<open>reconnectInterval + reconnectNonce\<close>: a constant
  floor plus jitter, with no growth between attempts.
\<close>

theorem getReconnectDelay_bounds:
  assumes "0 \<le> random" and "random < 1" and "0 \<le> reconnectNonce cfg"
  shows "reconnectInterval cfg \<le> getReconnectDelay (Some cfg) random
       \<and> getReconnectDelay (Some cfg) random \<le> reconnectInterval cfg + reconnectNonce cfg"
proof -
  have "0 \<le> random * reconnectNonce cfg"
    using assms by simp
  moreover have "random * reconnectNonce cfg \<le> reconnectNonce cfg"
    using assms by (simp add: mult_left_le_one_le)
  ultimately show ?thesis
    by (simp add: getReconnectDelay_def)
qed

theorem getReconnectDelay_bounds_witness:
  "(0::rat) \<le> 1 / 2 \<and> (1 / 2 :: rat) < 1 \<and> 0 \<le> reconnectNonce negotiated
   \<and> reconnectInterval negotiated \<le> getReconnectDelay (Some negotiated) (1 / 2)
   \<and> getReconnectDelay (Some negotiated) (1 / 2)
       \<le> reconnectInterval negotiated + reconnectNonce negotiated"
  using getReconnectDelay_bounds [of "1 / 2" negotiated]
  by (simp add: negotiated_def)

text \<open>
  The claim as stated, for every session configuration, fails when the server has sent a
  negative jitter: with \<open>reconnectInterval = 120000\<close>, \<open>reconnectNonce = -30000\<close> and the draw
  \<open>1/2\<close> the delay is \<open>105000\<close>, below the interval.
\<close>

theorem getReconnectDelay_negative_jitter:
  "getReconnectDelay (Some (negotiated\<lparr>reconnectNonce := - 30000\<rparr>)) (1 / 2) = 105000
   \<and> \<not> reconnectInterval (negotiated\<lparr>reconnectNonce := - 30000\<rparr>)
         \<le> getReconnectDelay (Some (negotiated\<lparr>reconnectNonce := - 30000\<rparr>)) (1 / 2)"
  by (simp add: getReconnectDelay_def negotiated_def)

subsection \<open>Timer hints of a pong frame\<close>




subsection \<open>Header lookup with a repeated key\<close>

lemma foldl_upd_notin:
  "k \<notin> fst ` set xs \<Longrightarrow> foldl (\<lambda>m (k, v). m(k \<mapsto> v)) m0 xs k = m0 k"
  by (induction xs arbitrary: m0) (auto split: prod.splits)

lemma new_Map_last:
  assumes "k \<notin> fst ` set post"
  shows "new_Map (pre @ (k, v) # post) k = Some v"
  using assms by (simp add: new_Map_def foldl_upd_notin)

lemma find_first:
  assumes "\<forall>x\<in>set pre. \<not> P x" and "P h"
  shows "find P (pre @ h # post) = Some h"
  using assms by (induction pre) auto

text \<open>
  Claim C4, as amended. For a frame whose headers repeat a key, the type lookup of the
  control path (\<^verbatim>\<open>find\<close>) gives the value of the first header with that key, and the
  lookups of the event path (\<^verbatim>\<open>new Map(...).get\<close>, for type, message_id, sum, seq and
  trace_id alike) give the value of the last header with that key. Stated for a header \<open>h\<close>
  at any position of the list: it is the one found by the control path when no earlier
  header has the key "type", and the one found by the event path when no later header has
  its key.
\<close>

theorem header_lookup_first_and_last:
  assumes "headers frame = Some (pre @ h # post)"
  shows "((\<forall>x\<in>set pre. key x \<noteq> HEADER_TYPE) \<and> key h = HEADER_TYPE
            \<longrightarrow> handleControlFrame_type frame = value' h)
       \<and> ((\<forall>x\<in>set post. key x \<noteq> key h)
            \<longrightarrow> handleEventFrame_headerMap frame (key h) = Some (value' h))"
proof (intro conjI impI)
  assume "(\<forall>x\<in>set pre. key x \<noteq> HEADER_TYPE) \<and> key h = HEADER_TYPE"
  then have "find (\<lambda>item. key item = HEADER_TYPE) (pre @ h # post) = Some h"
    by (intro find_first) auto
  with assms show "handleControlFrame_type frame = value' h"
    by (simp add: handleControlFrame_type_def)
next
  assume "\<forall>x\<in>set post. key x \<noteq> key h"
  then have "key h \<notin> fst ` set (map (\<lambda>item. (key item, value' item)) post)"
    by auto
  then have "new_Map (map (\<lambda>item. (key item, value' item)) pre
               @ (key h, value' h) # map (\<lambda>item. (key item, value' item)) post) (key h)
             = Some (value' h)"
    by (rule new_Map_last)
  with assms show "handleEventFrame_headerMap frame (key h) = Some (value' h)"
    by (simp add: handleEventFrame_headerMap_def)
qed

theorem header_lookup_witness:
  "headers twoTypes
     = Some ([] @ \<lparr>key = ''type'', value' = ''event''\<rparr> # [\<lparr>key = ''type'', value' = ''ping''\<rparr>])
   \<and> handleControlFrame_type twoTypes = ''event''
   \<and> headers twoTypes
     = Some ([\<lparr>key = ''type'', value' = ''event''\<rparr>] @ \<lparr>key = ''type'', value' = ''ping''\<rparr> # [])
   \<and> handleEventFrame_headerMap twoTypes ''type'' = Some ''ping''"
  using
    header_lookup_first_and_last [of twoTypes "[]" "\<lparr>key = ''type'', value' = ''event''\<rparr>"
      "[\<lparr>key = ''type'', value' = ''ping''\<rparr>]"]
    header_lookup_first_and_last [of twoTypes "[\<lparr>key = ''type'', value' = ''event''\<rparr>]"
      "\<lparr>key = ''type'', value' = ''ping''\<rparr>" "[]"]
  by (simp add: twoTypes_def HEADER_TYPE_def)

text \<open>
  The claim as stated has both paths take the first occurrence. In a frame with the headers
  type=event, type=ping the event path reads the type "ping", the last one, while the first
  header with the key holds "event".
\<close>

theorem event_header_lookup_takes_last:
  "handleEventFrame_headerMap twoTypes HEADER_TYPE = Some ''ping''
   \<and> map_option value' (find (\<lambda>item. key item = HEADER_TYPE) (the (headers twoTypes)))
       = Some ''event''"
  by (simp add: handleEventFrame_headerMap_def new_Map_def twoTypes_def HEADER_TYPE_def)

subsection \<open>Callback verifier: the worked example\<close>

lemma trim_examples:
  "trim ''1'' = ''1''" "trim ''2'' = ''2''" "trim ''s'' = ''s''" "trim ''v'' = ''v''"
  by code_simp+

lemma normalizeType_url_verification:
  "normalizeType (Some ''url_verification'') = ''url_verification''"
  by code_simp

lemma challengeBody_nonempty: "challengeBody \<noteq> []"
  by (simp add: challengeBody_def)

text \<open>
  Claim C10. When no signature header is supplied, no signature verification takes place:
  the call raises neither of the two signature errors, and its outcome is that of the
  remaining checks alone, the same whatever the configured app secret, the digest function,
  the timestamp and the nonce are. An unsigned request is thus accepted whenever the
  remaining checks pass, also when an app secret is configured.
\<close>

theorem unsigned_request_skips_signature:
  assumes "signature hdrs = None"
  shows "parseFeishuCallback sha256Hex parseJson decrypt rawBody hdrs verification \<noteq> Inl AppSecretMissing
       \<and> parseFeishuCallback sha256Hex parseJson decrypt rawBody hdrs verification \<noteq> Inl SignatureMismatch
       \<and> parseFeishuCallback sha256Hex parseJson decrypt rawBody hdrs verification
           = parseFeishuCallback sha256Hex' parseJson decrypt rawBody
               \<lparr>signature = None, timestamp = t, nonce = n\<rparr> (verification\<lparr>appSecret := secret\<rparr>)"
  using assms
  by (simp add: parseFeishuCallback_def nonEmpty_def split: option.splits sum.splits)

theorem unsigned_request_witness:
  "signature (challengeHeaders None) = None
   \<and> parseFeishuCallback sha256Hex_example parseJson_example decrypt_example challengeBody
        (challengeHeaders None) challengeVerification = Inr (Challenge ''c1'')"
  using unsigned_request_skips_signature [of "challengeHeaders None" sha256Hex_example
      parseJson_example decrypt_example challengeBody challengeVerification sha256Hex_example
      "Some ''1''" "Some ''2''" "Some ''s''"]
  by (simp add: challengeHeaders_def challengeVerification_def parseFeishuCallback_def
      nonEmpty_def parseJson_example_def challengeBody_nonempty challengeEnvelope_def
      extractToken_def trim_examples normalizeType_url_verification)

text \<open>
  Claim C7, as amended. With timestamp "1", nonce "2", the raw body
  \<^const>\<open>challengeBody\<close>, the configured secret "s" and the configured verification token "v":
  the signature \<open>hex(SHA256("12" + body + "s"))\<close> makes \<^const>\<open>parseFeishuCallback\<close> return
  \<open>Challenge "c1"\<close>, and every other signature that is not the empty string makes it raise
  the signature mismatch.
\<close>

theorem challenge_example:
  assumes "parseJson challengeBody = Some challengeEnvelope"
  shows "parseFeishuCallback sha256Hex parseJson decrypt challengeBody
           (challengeHeaders (Some (sha256Hex (''12'' @ challengeBody @ ''s''))))
           challengeVerification = Inr (Challenge ''c1'')
       \<and> (sig \<noteq> sha256Hex (''12'' @ challengeBody @ ''s'') \<and> sig \<noteq> []
            \<longrightarrow> parseFeishuCallback sha256Hex parseJson decrypt challengeBody
                  (challengeHeaders (Some sig)) challengeVerification = Inl SignatureMismatch)"
  using assms
  by (auto simp: parseFeishuCallback_def challengeHeaders_def challengeVerification_def
      nonEmpty_def trim_examples normalizeType_url_verification challengeEnvelope_def
      extractToken_def challengeBody_nonempty)

theorem challenge_example_witness:
  "parseJson_example challengeBody = Some challengeEnvelope
   \<and> parseFeishuCallback sha256Hex_example parseJson_example decrypt_example challengeBody
        (challengeHeaders (Some ''011dd543d8bb6346c0c9b7aaa7be62fbfa2bd36389063a6b0596934db8531451''))
        challengeVerification = Inr (Challenge ''c1'')
   \<and> parseFeishuCallback sha256Hex_example parseJson_example decrypt_example challengeBody
        (challengeHeaders (Some ''bad'')) challengeVerification = Inl SignatureMismatch"
  using challenge_example [of parseJson_example sha256Hex_example decrypt_example "''bad''"]
  by (simp add: parseJson_example_def sha256Hex_example_def)

text \<open>
  The claim as stated has every other signature raise. The empty string is another
  signature (it is not the digest), and with it the request is accepted: the guard
  \<^verbatim>\<open>if (headers.signature)\<close> takes an empty header value for an absent one.
\<close>

theorem empty_signature_accepted:
  "parseFeishuCallback sha256Hex_example parseJson_example decrypt_example challengeBody
     (challengeHeaders (Some [])) challengeVerification = Inr (Challenge ''c1'')
   \<and> [] \<noteq> sha256Hex_example (''12'' @ challengeBody @ ''s'')"
  by (simp add: parseFeishuCallback_def challengeHeaders_def challengeVerification_def
      nonEmpty_def trim_examples normalizeType_url_verification challengeEnvelope_def
      extractToken_def parseJson_example_def sha256Hex_example_def challengeBody_nonempty)

subsection \<open>Callback verifier: when it raises\<close>




subsection \<open>Chunk reassembly\<close>

lemma array_set_length: "length buf \<le> length (array_set buf seq data)"
  by (simp add: array_set_def split: number.splits)

lemma array_set_other:
  assumes "i < length buf" and "seq \<noteq> Integer (int i)"
  shows "array_set buf seq data ! i = buf ! i"
proof (cases seq)
  case NotInteger
  then show ?thesis by (simp add: array_set_def)
next
  case (Integer j)
  show ?thesis
  proof (cases "0 \<le> j \<and> j < 2 ^ 32 - 1")
    case False
    with Integer show ?thesis by (auto simp: array_set_def)
  next
    case True
    with assms(2) Integer have "nat j \<noteq> i"
      by auto
    with True Integer assms(1) show ?thesis
      by (simp add: array_set_def nth_append)
  qed
qed

lemma every_Boolean_Undefined:
  assumes "i < length buf" and "buf ! i = Undefined"
  shows "\<not> every_Boolean buf"
  using assms by (auto simp: every_Boolean_def list_all_length)

lemma mergeData_missing:
  assumes "missing i mid c" and "seq \<noteq> Integer (int i)"
    and "0 \<le> n" and "n < 2 ^ 32" and "int i < n"
  shows "fst (mergeData parse now mid (Integer n) seq tid data c) = Inr JNull
       \<and> missing i mid (snd (mergeData parse now mid (Integer n) seq tid data c))"
proof (cases "c mid")
  case None
  let ?fresh = "replicate (nat n) Undefined"
  from assms have i: "i < length ?fresh"
    by simp
  then have len: "i < length (array_set ?fresh seq data)"
    using array_set_length [of ?fresh seq data] by linarith
  from i assms(2) have "array_set ?fresh seq data ! i = Undefined"
    by (simp add: array_set_other)
  with len have "\<not> every_Boolean (array_set ?fresh seq data)"
    by (rule every_Boolean_Undefined)
  with None assms len \<open>array_set ?fresh seq data ! i = Undefined\<close> show ?thesis
    by (simp add: mergeData_def array_new_def missing_def)
next
  case (Some cached)
  with assms(1) have i: "i < length (buffer cached)" and u: "buffer cached ! i = Undefined"
    by (simp_all add: missing_def)
  from i have len: "i < length (array_set (buffer cached) seq data)"
    using array_set_length [of "buffer cached" seq data] by linarith
  from i u assms(2) have un: "array_set (buffer cached) seq data ! i = Undefined"
    by (simp add: array_set_other)
  with len have "\<not> every_Boolean (array_set (buffer cached) seq data)"
    by (rule every_Boolean_Undefined)
  with Some len un show ?thesis
    by (simp add: mergeData_def missing_def)
qed

lemma mergeAll_missing:
  assumes "missing i mid c" and "Integer (int i) \<notin> (\<lambda>call. fst call) ` set calls"
    and "0 \<le> n" and "n < 2 ^ 32" and "int i < n"
  shows "\<forall>r \<in> set (fst (mergeAll parse mid (Integer n) calls c)). r = Inr JNull"
  using assms(1,2)
proof (induction calls arbitrary: c)
  case Nil
  then show ?case by simp
next
  case (Cons call calls)
  obtain seq tid data now where call: "call = (seq, tid, data, now)"
    by (cases call) auto
  with Cons.prems have seq: "seq \<noteq> Integer (int i)"
    by auto
  note step = mergeData_missing [OF Cons.prems(1) seq assms(3,4,5), of parse now tid data]
  from Cons.prems have "Integer (int i) \<notin> (\<lambda>call. fst call) ` set calls"
    by auto
  with step Cons.IH [of "snd (mergeData parse now mid (Integer n) seq tid data c)"]
  show ?case
    by (simp add: call case_prod_beta)
qed

lemma mergeData_deletes:
  assumes "fst (mergeData parse now mid sumv seq tid data c) = Inr v" and "v \<noteq> JNull"
  shows "snd (mergeData parse now mid sumv seq tid data c) mid = None"
  using assms
  by (auto simp: mergeData_def split: option.splits sum.splits if_splits)

text \<open>
  Claim C2, as amended. For calls sharing one message id with a fixed chunk count \<open>n\<close>,
  starting where the cache holds no entry for the id: as long as some slot \<open>i\<close> below \<open>n\<close> has
  received no chunk, every call returns \<^verbatim>\<open>null\<close>. A call that returns a value other than
  \<^verbatim>\<open>null\<close> deletes the entry, so the cache keeps no memory of the completed id: a later
  chunk for it starts a fresh assembly, which can complete again.
\<close>

theorem mergeData_null_until_complete:
  assumes "c mid = None" and "0 \<le> n" and "n < 2 ^ 32" and "int i < n"
  shows "(Integer (int i) \<notin> (\<lambda>call. fst call) ` set calls
            \<longrightarrow> (\<forall>r \<in> set (fst (mergeAll parse mid (Integer n) calls c)). r = Inr JNull))
       \<and> (fst (mergeData parse now mid (Integer n) seq tid data c') = Inr v \<and> v \<noteq> JNull
            \<longrightarrow> snd (mergeData parse now mid (Integer n) seq tid data c') mid = None)"
proof (intro conjI impI)
  assume "Integer (int i) \<notin> (\<lambda>call. fst call) ` set calls"
  moreover from assms(1) have "missing i mid c"
    by (simp add: missing_def)
  ultimately show "\<forall>r \<in> set (fst (mergeAll parse mid (Integer n) calls c)). r = Inr JNull"
    using assms(2,3,4) mergeAll_missing [of i mid c calls n parse] by simp
next
  assume "fst (mergeData parse now mid (Integer n) seq tid data c') = Inr v \<and> v \<noteq> JNull"
  then show "snd (mergeData parse now mid (Integer n) seq tid data c') mid = None"
    using mergeData_deletes by blast
qed

theorem mergeData_null_until_complete_witness:
  "(Map.empty :: Cache) ''m1'' = None \<and> (0::int) \<le> 2 \<and> (2::int) < 2 ^ 32 \<and> int 1 < 2
   \<and> fst (mergeAll parseValue_example ''m1'' (Integer 2)
            [(Integer 0, ''t1'', ''{\"ok'', 0), (Integer 0, ''t1'', ''{\"ok'', 5)] Map.empty)
       = [Inr JNull, Inr JNull]
   \<and> fst (mergeData parseValue_example 9 ''m1'' (Integer 2) (Integer 1) ''t1'' ''\":true}''
            (snd (mergeData parseValue_example 0 ''m1'' (Integer 2) (Integer 0) ''t1'' ''{\"ok''
                    Map.empty)))
       = Inr (JObject [(''ok'', JBool True)])
   \<and> snd (mergeData parseValue_example 9 ''m1'' (Integer 2) (Integer 1) ''t1'' ''\":true}''
            (snd (mergeData parseValue_example 0 ''m1'' (Integer 2) (Integer 0) ''t1'' ''{\"ok''
                    Map.empty))) ''m1''
       = None"
  using mergeData_null_until_complete [of Map.empty "''m1''" 2 1
      "[(Integer 0, ''t1'', ''{\"ok'', 0), (Integer 0, ''t1'', ''{\"ok'', 5)]"
      parseValue_example 9 "Integer 1" "''t1''" "''\":true}''"
      "snd (mergeData parseValue_example 0 ''m1'' (Integer 2) (Integer 0) ''t1'' ''{\"ok''
              Map.empty)"
      "JObject [(''ok'', JBool True)]"]
  by (simp add: mergeData_def array_new_def array_set_def every_Boolean_def reduce_concat_def
      parseValue_example_def eval_nat_numeral)

text \<open>
  The claim as stated allows one assembled result per message id over the whole sequence,
  calls after a completion included. Delivering the two chunks of \<open>{"ok":true}\<close> twice under
  the id "m1" returns the assembled value twice.
\<close>

theorem mergeData_completes_twice:
  "fst (mergeAll parseValue_example ''m1'' (Integer 2)
          [(Integer 0, ''t1'', ''{\"ok'', 0), (Integer 1, ''t1'', ''\":true}'', 1),
           (Integer 0, ''t1'', ''{\"ok'', 2), (Integer 1, ''t1'', ''\":true}'', 3)] Map.empty)
   = [Inr JNull, Inr (JObject [(''ok'', JBool True)]),
      Inr JNull, Inr (JObject [(''ok'', JBool True)])]"
  by (simp add: mergeData_def array_new_def array_set_def every_Boolean_def reduce_concat_def
      parseValue_example_def eval_nat_numeral)

text \<open>
  Claim C6. For a message of two chunks and a cache that holds no entry for its id,
  delivering the chunk of index 1 before the chunk of index 0 gives, on the second call, the
  result of delivering them in index order: the value parsed from the chunk of index 0
  followed by the chunk of index 1 (or the parse error of that text); the first call
  returns \<^verbatim>\<open>null\<close> in both orders.
\<close>

theorem mergeData_two_chunks_any_order:
  assumes "c mid = None"
  shows "fst (mergeData parse now2 mid (Integer 2) (Integer 0) tid d0
               (snd (mergeData parse now1 mid (Integer 2) (Integer 1) tid d1 c)))
         = fst (mergeData parse now2 mid (Integer 2) (Integer 1) tid d1
                 (snd (mergeData parse now1 mid (Integer 2) (Integer 0) tid d0 c)))
       \<and> fst (mergeData parse now2 mid (Integer 2) (Integer 0) tid d0
               (snd (mergeData parse now1 mid (Integer 2) (Integer 1) tid d1 c)))
         = (case parse (d0 @ d1) of None \<Rightarrow> Inl SyntaxError | Some v \<Rightarrow> Inr v)
       \<and> fst (mergeData parse now1 mid (Integer 2) (Integer 1) tid d1 c) = Inr JNull
       \<and> fst (mergeData parse now1 mid (Integer 2) (Integer 0) tid d0 c) = Inr JNull"
  using assms
  by (simp add: mergeData_def array_new_def array_set_def every_Boolean_def reduce_concat_def
      eval_nat_numeral split: option.splits)

theorem mergeData_two_chunks_witness:
  "(Map.empty :: Cache) ''m1'' = None
   \<and> fst (mergeData parseValue_example 1 ''m1'' (Integer 2) (Integer 0) ''t1'' ''{\"ok''
            (snd (mergeData parseValue_example 0 ''m1'' (Integer 2) (Integer 1) ''t1''
                    ''\":true}'' Map.empty)))
       = Inr (JObject [(''ok'', JBool True)])
   \<and> fst (mergeData parseValue_example 1 ''m1'' (Integer 2) (Integer 1) ''t1'' ''\":true}''
            (snd (mergeData parseValue_example 0 ''m1'' (Integer 2) (Integer 0) ''t1''
                    ''{\"ok'' Map.empty)))
       = Inr (JObject [(''ok'', JBool True)])"
  using mergeData_two_chunks_any_order [of Map.empty "''m1''" parseValue_example 1 "''t1''"
      "''{\"ok''" 0 "''\":true}''"]
  by (auto simp: parseValue_example_def)

subsection \<open>A handler that throws\<close>



subsection \<open>Frame codec: encode, then decode\<close>




lemma low_byte: "0 \<le> v \<Longrightarrow> v < 0x80 \<Longrightarrow> (of_char (char_of v) :: int) = v"
  by simp
































end
